theory Spec2Isabelle
  imports Main "HOL-Library.Sublist"
begin

section \<open>The search widget of the gradebook (grade/amd/src/searchwidget/basewidget.js)\<close>

text \<open>
  The module builds a search widget inside a container element: it injects the body
  markup, shows a loading placeholder, renders the caller's data set, and wires an
  input listener (debounced) and a clear-button listener that filter and re-render.

  The embedding keeps the source's functions and names. A promise is represented by the
  state it settles in, an \<open>async\<close> function by a function from the page to its outcome
  (\<open>Inl\<close> a rejection reason, \<open>Inr\<close> a fulfilment) and the page it leaves behind.
\<close>

subsection \<open>Markup and the container's DOM\<close>

text \<open>
  An HTML string is represented by the forest the browser's parser builds from it; the
  empty string is the empty forest. An element carries its attributes, its class list,
  the \<open>value\<close> property of a form control, and its child nodes.
\<close>

datatype node =
  Text string
| Element "(string \<times> string) list" "string list" string "node list"

type_synonym html = "node list"

text \<open>
  A reference to an element below the container is the path of child indices leading to
  it. \<open>None\<close> stands for JavaScript's \<open>null\<close>. After the listeners are added the only
  change of structure is the replacement of the results region's children, so the path a
  listener holds stays the reference of its element unless that element lies inside the
  results region. Reading through a path that designates no element gives the empty
  string, writing through it changes nothing.
\<close>

type_synonym path = "nat list"

type_synonym selector = "node \<Rightarrow> bool"

fun kids :: "node \<Rightarrow> node list" where
  "kids (Text t) = []"
| "kids (Element a c v ks) = ks"

fun node_value :: "node \<Rightarrow> string" where
  "node_value (Text t) = []"
| "node_value (Element a c v ks) = v"

fun node_classes :: "node \<Rightarrow> string list" where
  "node_classes (Text t) = []"
| "node_classes (Element a c v ks) = c"

fun is_Element :: "node \<Rightarrow> bool" where
  "is_Element (Text t) = False"
| "is_Element (Element a c v ks) = True"

fun with_kids :: "(node list \<Rightarrow> node list) \<Rightarrow> node \<Rightarrow> node" where
  "with_kids g (Text t) = Text t"
| "with_kids g (Element a c v ks) = Element a c v (g ks)"

primrec get_at :: "path \<Rightarrow> node list \<Rightarrow> node option" where
  "get_at [] ns = None"
| "get_at (i # p) ns =
     (if i < length ns
      then (if p = [] then Some (ns ! i) else get_at p (kids (ns ! i)))
      else None)"

primrec upd_at :: "path \<Rightarrow> (node \<Rightarrow> node) \<Rightarrow> node list \<Rightarrow> node list" where
  "upd_at [] f ns = ns"
| "upd_at (i # p) f ns =
     (if i < length ns
      then ns[i := (if p = [] then f (ns ! i) else with_kids (upd_at p f) (ns ! i))]
      else ns)"

text \<open>What a reference designates: an element or not, its child nodes, its classes.\<close>

definition is_element :: "path \<Rightarrow> node list \<Rightarrow> bool" where
  "is_element p ns = (case get_at p ns of None \<Rightarrow> False | Some n \<Rightarrow> is_Element n)"

definition children_at :: "path \<Rightarrow> node list \<Rightarrow> node list option" where
  "children_at p ns = map_option kids (get_at p ns)"

definition classes_at :: "path \<Rightarrow> node list \<Rightarrow> string list" where
  "classes_at p ns = (case get_at p ns of None \<Rightarrow> [] | Some n \<Rightarrow> node_classes n)"

text \<open>
  \<open>querySelector\<close>: the first element among the container's descendants, in document
  order, that the selector matches.
\<close>

fun first_index :: "nat \<Rightarrow> path option list \<Rightarrow> path option" where
  "first_index i [] = None"
| "first_index i (None # r) = first_index (Suc i) r"
| "first_index i (Some p # r) = Some (i # p)"

primrec self_or_descendant :: "selector \<Rightarrow> node \<Rightarrow> path option" where
  "self_or_descendant sel (Text t) = None"
| "self_or_descendant sel (Element a c v ks) =
     (if sel (Element a c v ks) then Some []
      else first_index 0 (map (self_or_descendant sel) ks))"

definition querySelector :: "node list \<Rightarrow> selector \<Rightarrow> path option" where
  "querySelector container sel = first_index 0 (map (self_or_descendant sel) container)"

subsection \<open>Collaborators that are not part of the module\<close>

text \<open>
  The module imports \<open>core_grades/searchwidget/selectors\<close>, \<open>core/templates\<close>,
  \<open>core/notification\<close> and \<open>core/utils\<close>. They are parameters of the model.
\<close>

record selectors =
  regions_unsearchableContent :: selector
  regions_searchResults :: selector
  actions_search :: selector
  actions_clearSearch :: selector

text \<open>A rejection reason: the \<open>TypeError\<close> of a property access on \<open>null\<close>, or a
  value thrown by a collaborator.\<close>

datatype 'e reason = TypeError | Thrown 'e

text \<open>The context handed to a template: \<open>{}\<close> or \<open>{'searchresults': data}\<close>.\<close>

datatype 'd template_context = EmptyContext | Searchresults "'d list"

text \<open>
  Modelled from the spec: \<open>core/templates\<close> is not among the source files. The spec gives
  \<open>renderForPromise(templateName, data) -> Promise<{html, js}>\<close> and
  \<open>replaceNodeContents(container, html, js) -> Promise<void>\<close>. What a template renders
  to (or the reason its promise rejects with) is the field \<open>renderForPromise\<close>, a
  function of the template's name and context. Whether \<open>replaceNodeContents\<close> has replaced
  the node's contents by the time it returns, or does so in the microtask after the call,
  when its promise settles, is the field \<open>replaces_synchronously\<close>. A replacement that
  takes longer is not modelled.
\<close>

record ('e, 'd) templates =
  renderForPromise :: "string \<Rightarrow> 'd template_context \<Rightarrow> 'e reason + (html \<times> string)"
  replaces_synchronously :: bool

subsection \<open>The page\<close>

text \<open>The variables the two listeners close over.\<close>

record 'd env =
  env_searchResultsContainer :: "path option"
  env_searchInput :: path
  env_clearSearchButton :: "path option"
  env_data :: "'d list"
  env_searchFunc :: "unit \<Rightarrow> 'd list \<Rightarrow> string \<Rightarrow> 'd list"

datatype callback = InputCallback | ClearCallback

datatype schedule = Immediately | Debounced nat

record 'd listener =
  target :: path
  event_name :: string
  scheduled :: schedule
  callback :: callback
  captured :: "'d env"

text \<open>A replacement of a node's contents that \<open>replaceNodeContents\<close> was asked for.\<close>

record job =
  job_container :: "path option"
  job_html :: html
  job_js :: string

datatype promise = Settled | Outstanding job

datatype 'd event =
  RenderCalled string "'d template_context"
| ReplaceCalled "path option" html string
| ReplaceCompleted "path option" html string
| StopPropagation

text \<open>
  The page as the module sees it: the container's contents, the focused element, the
  listeners added so far, what \<open>Notification.exception\<close> received, the replacements
  asked for and not completed yet, and the calls to the collaborators in their order.
\<close>

record ('e, 'd) world =
  content :: "node list"
  activeElement :: "path option"
  listeners :: "'d listener list"
  notifications :: "'e reason list"
  pending :: "job list"
  trace :: "'d event list"

definition record_event :: "'d event \<Rightarrow> ('e, 'd) world \<Rightarrow> ('e, 'd) world" where
  "record_event ev w = w\<lparr>trace := trace w @ [ev]\<rparr>"

text \<open>
  Modelled from the spec: \<open>core/notification\<close> is not among the source files. The spec
  gives \<open>exception(error) -> void\<close>, fire-and-forget error reporting: the page records
  what it received.
\<close>

definition Notification_exception :: "'e reason \<Rightarrow> ('e, 'd) world \<Rightarrow> ('e, 'd) world" where
  "Notification_exception e w = w\<lparr>notifications := notifications w @ [e]\<rparr>"

subsection \<open>Element operations\<close>

fun set_kids :: "node list \<Rightarrow> node \<Rightarrow> node" where
  "set_kids new (Text t) = Text t"
| "set_kids new (Element a c v ks) = Element a c v new"

fun set_control_value :: "string \<Rightarrow> node \<Rightarrow> node" where
  "set_control_value x (Text t) = Text t"
| "set_control_value x (Element a c v ks) = Element a c x ks"

fun add_class :: "string \<Rightarrow> node \<Rightarrow> node" where
  "add_class x (Text t) = Text t"
| "add_class x (Element a c v ks) = Element a (if x \<in> set c then c else c @ [x]) v ks"

fun remove_class :: "string \<Rightarrow> node \<Rightarrow> node" where
  "remove_class x (Text t) = Text t"
| "remove_class x (Element a c v ks) = Element a (removeAll x c) v ks"

text \<open>\<open>element.innerHTML += h\<close>\<close>

definition append_innerHTML :: "path \<Rightarrow> html \<Rightarrow> ('e, 'd) world \<Rightarrow> ('e, 'd) world" where
  "append_innerHTML p h w = w\<lparr>content := upd_at p (with_kids (\<lambda>ks. ks @ h)) (content w)\<rparr>"

text \<open>\<open>element.value\<close>, read and written\<close>

definition value_of :: "path \<Rightarrow> ('e, 'd) world \<Rightarrow> string" where
  "value_of p w = (case get_at p (content w) of None \<Rightarrow> [] | Some n \<Rightarrow> node_value n)"

definition set_value :: "path \<Rightarrow> string \<Rightarrow> ('e, 'd) world \<Rightarrow> ('e, 'd) world" where
  "set_value p x w = w\<lparr>content := upd_at p (set_control_value x) (content w)\<rparr>"

definition focus_element :: "path \<Rightarrow> ('e, 'd) world \<Rightarrow> ('e, 'd) world" where
  "focus_element p w = w\<lparr>activeElement := Some p\<rparr>"

definition classList_add :: "path \<Rightarrow> string \<Rightarrow> ('e, 'd) world \<Rightarrow> ('e, 'd) world" where
  "classList_add p x w = w\<lparr>content := upd_at p (add_class x) (content w)\<rparr>"

definition classList_remove :: "path \<Rightarrow> string \<Rightarrow> ('e, 'd) world \<Rightarrow> ('e, 'd) world" where
  "classList_remove p x w = w\<lparr>content := upd_at p (remove_class x) (content w)\<rparr>"

definition addEventListener ::
  "path \<Rightarrow> string \<Rightarrow> schedule \<Rightarrow> callback \<Rightarrow> 'd env \<Rightarrow> ('e, 'd) world \<Rightarrow> ('e, 'd) world" where
  "addEventListener p name sch cb E w =
     w\<lparr>listeners := listeners w @
        [\<lparr>target = p, event_name = name, scheduled = sch, callback = cb, captured = E\<rparr>]\<rparr>"

subsection \<open>Replacing a node's contents\<close>

text \<open>
  Modelled from the spec: \<open>Templates.replaceNodeContents\<close> replaces the contents of the
  node with the rendered HTML; a \<open>null\<close> node leaves the document as it is. The call is
  logged when it is made and when the replacement is done. A replacement that is not done
  when the call returns is in \<open>pending\<close>; it is done when its promise is awaited, and
  otherwise in the microtask after the call, before any function that awaits the caller
  resumes. The script \<open>js\<close> is passed on; what it does to the page is not modelled.
\<close>

definition complete_replace :: "job \<Rightarrow> ('e, 'd) world \<Rightarrow> ('e, 'd) world" where
  "complete_replace j w =
     record_event (ReplaceCompleted (job_container j) (job_html j) (job_js j))
       (case job_container j of
          None \<Rightarrow> w
        | Some p \<Rightarrow> w\<lparr>content := upd_at p (set_kids (job_html j)) (content w)\<rparr>)"

definition replaceNodeContents ::
  "('e, 'd) templates \<Rightarrow> path option \<Rightarrow> html \<Rightarrow> string \<Rightarrow> ('e, 'd) world
     \<Rightarrow> promise \<times> ('e, 'd) world" where
  "replaceNodeContents T container h js w =
     (let j = \<lparr>job_container = container, job_html = h, job_js = js\<rparr>;
          w1 = record_event (ReplaceCalled container h js) w
      in if replaces_synchronously T then (Settled, complete_replace j w1)
         else (Outstanding j, w1\<lparr>pending := pending w1 @ [j]\<rparr>))"

text \<open>\<open>await promise\<close>: the caller goes on once the replacement is done.\<close>

fun await :: "promise \<Rightarrow> ('e, 'd) world \<Rightarrow> ('e, 'd) world" where
  "await Settled w = w"
| "await (Outstanding j) w = complete_replace j (w\<lparr>pending := remove1 j (pending w)\<rparr>)"

text \<open>The microtasks run: the replacements still pending are done, in the order they were
  asked for.\<close>

definition settle :: "('e, 'd) world \<Rightarrow> ('e, 'd) world" where
  "settle w = foldl (\<lambda>w' j. complete_replace j w') (w\<lparr>pending := []\<rparr>) (pending w)"

text \<open>\<open>await f(...)\<close> for an \<open>async\<close> function of the module: the caller resumes with the
  outcome of \<open>f\<close>, in a microtask after \<open>f\<close> returned.\<close>

definition resumed :: "'x \<times> ('e, 'd) world \<Rightarrow> 'x \<times> ('e, 'd) world" where
  "resumed r = (fst r, settle (snd r))"

subsection \<open>The module's functions\<close>

text \<open>
  \<^verbatim>\<open>
  export const showLoader = async(container) => {
      const {html, js} = await Templates.renderForPromise('core_grades/searchwidget/loading', {});
      Templates.replaceNodeContents(container, html, js);
  };
  \<close>
  The promise of \<open>replaceNodeContents\<close> is dropped: the function returns without
  awaiting it, and a replacement that is not done yet is left in \<open>pending\<close>.
\<close>

definition showLoader ::
  "('e, 'd) templates \<Rightarrow> path option \<Rightarrow> ('e, 'd) world \<Rightarrow> ('e reason + unit) \<times> ('e, 'd) world" where
  "showLoader T container w =
     (let w1 = record_event (RenderCalled ''core_grades/searchwidget/loading'' EmptyContext) w
      in case renderForPromise T ''core_grades/searchwidget/loading'' EmptyContext of
           Inl e \<Rightarrow> (Inl e, w1)
         | Inr (h, js) \<Rightarrow> (Inr (), snd (replaceNodeContents T container h js w1)))"

text \<open>
  \<^verbatim>\<open>
  const debounceCallee = (searchValue, data, searchFunction) => {
      if (searchValue.length > 0) { // Search query is present.
          return searchFunction(data, searchValue);
      }
      return data;
  };
  \<close>
\<close>

definition debounceCallee ::
  "string \<Rightarrow> 'd list \<Rightarrow> ('d list \<Rightarrow> string \<Rightarrow> 'd list) \<Rightarrow> 'd list" where
  "debounceCallee searchValue data searchFunction =
     (if length searchValue > 0 then searchFunction data searchValue else data)"

text \<open>
  \<^verbatim>\<open>
  const renderSearchResults = async(searchResultsContainer, searchResultsData) => {
      const templateData = {
          'searchresults': searchResultsData,
      };
      const {html, js} = await Templates.renderForPromise('core_grades/searchwidget/searchresults', templateData);
      await Templates.replaceNodeContents(searchResultsContainer, html, js);
  };
  \<close>
\<close>

definition renderSearchResults ::
  "('e, 'd) templates \<Rightarrow> path option \<Rightarrow> 'd list \<Rightarrow> ('e, 'd) world
     \<Rightarrow> ('e reason + unit) \<times> ('e, 'd) world" where
  "renderSearchResults T searchResultsContainer searchResultsData w =
     (let templateData = Searchresults searchResultsData;
          w1 = record_event (RenderCalled ''core_grades/searchwidget/searchresults'' templateData) w
      in case renderForPromise T ''core_grades/searchwidget/searchresults'' templateData of
           Inl e \<Rightarrow> (Inl e, w1)
         | Inr (h, js) \<Rightarrow>
             (case replaceNodeContents T searchResultsContainer h js w1 of
                (p, w2) \<Rightarrow> (Inr (), await p w2)))"

text \<open>
  \<^verbatim>\<open>
  searchInput.addEventListener('input', debounce(async() => {
      if (searchInput.value.length > 0) {
          clearSearchButton.classList.remove('d-none');
      } else {
          clearSearchButton.classList.add('d-none');
      }
      await renderSearchResults(searchResultsContainer,
          debounceCallee(searchInput.value, data, searchFunc()));
  }, 300));
  \<close>
  The function handed to \<open>debounce\<close>. The listener is added before the clear button is
  used, so it can exist with a \<open>null\<close> button; then both branches throw.
\<close>

definition input_callback ::
  "('e, 'd) templates \<Rightarrow> 'd env \<Rightarrow> ('e, 'd) world \<Rightarrow> ('e reason + unit) \<times> ('e, 'd) world" where
  "input_callback T E w =
     (case env_clearSearchButton E of
        None \<Rightarrow> (Inl TypeError, w)
      | Some button \<Rightarrow>
          (let w1 = (if length (value_of (env_searchInput E) w) > 0
                     then classList_remove button ''d-none'' w
                     else classList_add button ''d-none'' w)
           in renderSearchResults T (env_searchResultsContainer E)
                (debounceCallee (value_of (env_searchInput E) w1) (env_data E)
                   (env_searchFunc E ()))
                w1))"

text \<open>
  \<^verbatim>\<open>
  clearSearchButton.addEventListener('click', async(e) => {
      e.stopPropagation();
      searchInput.value = "";
      searchInput.focus();
      clearSearchButton.classList.add('d-none');
      await renderSearchResults(searchResultsContainer,
          debounceCallee(searchInput.value, data, searchFunc()));
  });
  \<close>
\<close>

definition clear_callback ::
  "('e, 'd) templates \<Rightarrow> 'd env \<Rightarrow> ('e, 'd) world \<Rightarrow> ('e reason + unit) \<times> ('e, 'd) world" where
  "clear_callback T E w =
     (let w1 = record_event StopPropagation w;
          w2 = set_value (env_searchInput E) [] w1;
          w3 = focus_element (env_searchInput E) w2
      in case env_clearSearchButton E of
           None \<Rightarrow> (Inl TypeError, w3)
         | Some button \<Rightarrow>
             (let w4 = classList_add button ''d-none'' w3
              in renderSearchResults T (env_searchResultsContainer E)
                   (debounceCallee (value_of (env_searchInput E) w4) (env_data E)
                      (env_searchFunc E ()))
                   w4))"

text \<open>
  \<^verbatim>\<open>
  export const registerListenerEvents = (widgetContentContainer, data, searchFunc) => {
      const searchResultsContainer = widgetContentContainer.querySelector(Selectors.regions.searchResults);
      const searchInput = widgetContentContainer.querySelector(Selectors.actions.search);
      if (!searchInput) {
          // Too late. The widget is already closed and its content is empty.
          return;
      }
      searchInput.focus();
      const clearSearchButton = widgetContentContainer.querySelector(Selectors.actions.clearSearch);
      searchInput.addEventListener('input', debounce(..., 300));
      clearSearchButton.addEventListener('click', ...);
  };
  \<close>
\<close>

definition registerListenerEvents ::
  "selectors \<Rightarrow> 'd list \<Rightarrow> (unit \<Rightarrow> 'd list \<Rightarrow> string \<Rightarrow> 'd list) \<Rightarrow> ('e, 'd) world
     \<Rightarrow> ('e reason + unit) \<times> ('e, 'd) world" where
  "registerListenerEvents S data_set searchFunction w =
     (let results = querySelector (content w) (regions_searchResults S)
      in case querySelector (content w) (actions_search S) of
           None \<Rightarrow> (Inr (), w)
         | Some input \<Rightarrow>
             (let w1 = focus_element input w;
                  button = querySelector (content w1) (actions_clearSearch S);
                  E = \<lparr>env_searchResultsContainer = results, env_searchInput = input,
                       env_clearSearchButton = button, env_data = data_set,
                       env_searchFunc = searchFunction\<rparr>;
                  w2 = addEventListener input ''input'' (Debounced 300) InputCallback E w1
              in case button of
                   None \<Rightarrow> (Inl TypeError, w2)
                 | Some b \<Rightarrow>
                     (Inr (), addEventListener b ''click'' Immediately ClearCallback E w2)))"

text \<open>
  \<^verbatim>\<open>
  if (unsearchableContent) {
      const unsearchableContentContainer = widgetContentContainer.querySelector(Selectors.regions.unsearchableContent);
      unsearchableContentContainer.innerHTML += unsearchableContent;
  }
  \<close>
  \<open>null\<close> and the empty string are falsy.
\<close>

definition render_unsearchable ::
  "selectors \<Rightarrow> html option \<Rightarrow> ('e, 'd) world \<Rightarrow> ('e reason + unit) \<times> ('e, 'd) world" where
  "render_unsearchable S unsearchableContent w =
     (case unsearchableContent of
        None \<Rightarrow> (Inr (), w)
      | Some u \<Rightarrow>
          if u = [] then (Inr (), w)
          else (case querySelector (content w) (regions_unsearchableContent S) of
                  None \<Rightarrow> (Inl TypeError, w)
                | Some c \<Rightarrow> (Inr (), append_innerHTML c u w)))"

text \<open>
  The function handed to \<open>bodyPromise.then\<close>:
  \<^verbatim>\<open>
  async(bodyContent) => {
      widgetContentContainer.innerHTML = bodyContent;
      if (unsearchableContent) { ... }
      const searchResultsContainer = widgetContentContainer.querySelector(Selectors.regions.searchResults);
      await showLoader(searchResultsContainer);
      await renderSearchResults(searchResultsContainer, data);
      registerListenerEvents(widgetContentContainer, data, searchFunc);
  }
  \<close>
  After each of the two \<open>await\<close>s the callback resumes in a later microtask.
\<close>

definition init_then ::
  "('e, 'd) templates \<Rightarrow> selectors \<Rightarrow> 'd list \<Rightarrow> (unit \<Rightarrow> 'd list \<Rightarrow> string \<Rightarrow> 'd list)
     \<Rightarrow> html option \<Rightarrow> html \<Rightarrow> ('e, 'd) world \<Rightarrow> ('e reason + unit) \<times> ('e, 'd) world" where
  "init_then T S data_set searchFunction unsearchableContent bodyContent w =
     (case render_unsearchable S unsearchableContent (w\<lparr>content := bodyContent\<rparr>) of
        (Inl e, w1) \<Rightarrow> (Inl e, w1)
      | (Inr _, w1) \<Rightarrow>
          (let results = querySelector (content w1) (regions_searchResults S)
           in case resumed (showLoader T results w1) of
                (Inl e, w2) \<Rightarrow> (Inl e, w2)
              | (Inr _, w2) \<Rightarrow>
                  (case resumed (renderSearchResults T results data_set w2) of
                     (Inl e, w3) \<Rightarrow> (Inl e, w3)
                   | (Inr _, w3) \<Rightarrow> registerListenerEvents S data_set searchFunction w3)))"

text \<open>The state a promise is in. \<open>Pending\<close> as an argument: it never settles.\<close>

datatype ('e, 'v) promise_state = Pending | Fulfilled 'v | Rejected "'e reason"

text \<open>
  \<^verbatim>\<open>
  export const init = async(widgetContentContainer, bodyPromise, data, searchFunc, unsearchableContent = null) => {
      bodyPromise.then(async(bodyContent) => { ... }).catch(Notification.exception);
  };
  \<close>
  The chain is neither returned nor awaited: the promise of \<open>init\<close> is fulfilled
  whatever the chain does. The first component is the outcome of that promise, the second
  the page once the chain has settled.
\<close>

definition init ::
  "('e, 'd) templates \<Rightarrow> selectors \<Rightarrow> ('e, html) promise_state \<Rightarrow> 'd list
     \<Rightarrow> (unit \<Rightarrow> 'd list \<Rightarrow> string \<Rightarrow> 'd list) \<Rightarrow> html option \<Rightarrow> ('e, 'd) world
     \<Rightarrow> ('e reason + unit) \<times> ('e, 'd) world" where
  "init T S bodyPromise data_set searchFunction unsearchableContent w =
     (Inr (),
      case bodyPromise of
        Pending \<Rightarrow> w
      | Rejected e \<Rightarrow> Notification_exception e w
      | Fulfilled bodyContent \<Rightarrow>
          (case init_then T S data_set searchFunction unsearchableContent bodyContent w of
             (Inl e, w1) \<Rightarrow> Notification_exception e w1
           | (Inr _, w1) \<Rightarrow> w1))"

subsection \<open>The deferred body\<close>

text \<open>
  \<^verbatim>\<open>
  export const promisesAndResolvers = () => {
      let bodyPromiseResolver;
      const bodyPromise = new Promise(resolve => {
          bodyPromiseResolver = resolve;
      });
      return {bodyPromiseResolver, bodyPromise};
  };
  \<close>
  \<open>bodyPromiseResolver\<close> is the resolving function of the native promise. What it is
  called with is a plain value, a thenable (given by the state it settles in) or the
  promise itself. The promise is fulfilled with a plain value, follows a thenable, and is
  rejected with a \<open>TypeError\<close> when resolved with itself. The first call decides; later
  calls do nothing.
\<close>

datatype ('e, 'v) resolution = Plain 'v | Thenable "('e, 'v) promise_state" | Itself


text \<open>A promise of the page: its resolving function was not called yet, or it was and the
  promise settles as given.\<close>

datatype ('e, 'v) promise_cell = Unresolved | Resolved "('e, 'v) promise_state"


text \<open>The promises created so far, a promise being its index.\<close>

type_synonym ('e, 'v) promises = "('e, 'v) promise_cell list"


record ('e, 'v) deferred_body =
  bodyPromiseResolver :: "('e, 'v) resolution \<Rightarrow> ('e, 'v) promises \<Rightarrow> ('e, 'v) promises"
  bodyPromise :: nat


subsection \<open>The debounced listener in time\<close>

text \<open>
  Modelled from the spec: \<open>debounce\<close> of \<open>core/utils\<close> is not among the source files. The
  spec gives it standard trailing-edge semantics: the handler is invoked once a quiet
  period of the given length has passed since the last triggering event, and the triggers
  in between are discarded. Time is in milliseconds. \<open>timer\<close> is the time the scheduled
  call is due, \<open>cycles\<close> lists the query each executed call read from the search input.
\<close>

record ('e, 'd) timeline =
  timer :: "nat option"
  cycles :: "string list"
  page :: "('e, 'd) world"

definition run_callback ::
  "('e, 'd) templates \<Rightarrow> 'd listener \<Rightarrow> ('e, 'd) world \<Rightarrow> ('e, 'd) world" where
  "run_callback T l w =
     (case callback l of
        InputCallback \<Rightarrow> snd (input_callback T (captured l) w)
      | ClearCallback \<Rightarrow> snd (clear_callback T (captured l) w))"

definition fire :: "('e, 'd) templates \<Rightarrow> 'd listener \<Rightarrow> ('e, 'd) timeline \<Rightarrow> ('e, 'd) timeline" where
  "fire T l st =
     st\<lparr>timer := None,
        cycles := cycles st @ [value_of (env_searchInput (captured l)) (page st)],
        page := run_callback T l (page st)\<rparr>"

text \<open>Time passes until \<open>t\<close>: a call that is due by then runs.\<close>

definition advance_to ::
  "('e, 'd) templates \<Rightarrow> 'd listener \<Rightarrow> nat \<Rightarrow> ('e, 'd) timeline \<Rightarrow> ('e, 'd) timeline" where
  "advance_to T l t st =
     (case timer st of
        None \<Rightarrow> st
      | Some due \<Rightarrow> if due \<le> t then fire T l st else st)"

text \<open>The event reaches the listener at time \<open>t\<close>: a debounced listener drops the call it
  had scheduled and schedules a new one.\<close>

definition dispatch ::
  "('e, 'd) templates \<Rightarrow> 'd listener \<Rightarrow> nat \<Rightarrow> ('e, 'd) timeline \<Rightarrow> ('e, 'd) timeline" where
  "dispatch T l t st =
     (case scheduled l of
        Immediately \<Rightarrow> fire T l st
      | Debounced wait \<Rightarrow> st\<lparr>timer := Some (t + wait)\<rparr>)"

text \<open>An input event \<open>(t, v)\<close>: at time \<open>t\<close> the user's edit leaves \<open>v\<close> in the control.\<close>

definition input_event ::
  "('e, 'd) templates \<Rightarrow> 'd listener \<Rightarrow> ('e, 'd) timeline \<Rightarrow> nat \<times> string \<Rightarrow> ('e, 'd) timeline" where
  "input_event T l st ev =
     (let st1 = advance_to T l (fst ev) st;
          st2 = st1\<lparr>page := set_value (target l) (snd ev) (page st1)\<rparr>
      in dispatch T l (fst ev) st2)"

definition input_events ::
  "('e, 'd) templates \<Rightarrow> 'd listener \<Rightarrow> (nat \<times> string) list \<Rightarrow> nat \<Rightarrow> ('e, 'd) timeline
     \<Rightarrow> ('e, 'd) timeline" where
  "input_events T l evs t_end st = advance_to T l t_end (foldl (input_event T l) st evs)"

subsection \<open>A concrete widget\<close>

text \<open>
  A widget to run the functions on: attribute selectors, a body with a search input, a
  clear button and a results region, templates that render the placeholder as one text
  node and each result as a text node, and the names Alice, Bob and Charlie.
\<close>

definition attr_selector :: "string \<Rightarrow> string \<Rightarrow> selector" where
  "attr_selector k x n = (case n of Text t \<Rightarrow> False | Element a c v ks \<Rightarrow> (k, x) \<in> set a)"

definition example_selectors :: selectors where
  "example_selectors =
     \<lparr>regions_unsearchableContent = attr_selector ''data-region'' ''unsearchable'',
      regions_searchResults = attr_selector ''data-region'' ''results'',
      actions_search = attr_selector ''data-action'' ''search'',
      actions_clearSearch = attr_selector ''data-action'' ''clearsearch''\<rparr>"

text \<open>The body with a query in the input, classes on the button and results in the region.\<close>

definition widget_content :: "string \<Rightarrow> string list \<Rightarrow> node list \<Rightarrow> node list" where
  "widget_content query button_classes results =
     [Element [(''data-action'', ''search'')] [] query [],
      Element [(''data-action'', ''clearsearch'')] button_classes [] [],
      Element [(''data-region'', ''results'')] [] [] results]"

definition example_body :: html where
  "example_body = widget_content [] [''d-none''] []"

definition example_templates :: "bool \<Rightarrow> (string, string) templates" where
  "example_templates sync =
     \<lparr>renderForPromise = (\<lambda>name ctx.
         case ctx of
           EmptyContext \<Rightarrow> Inr ([Text ''loading''], [])
         | Searchresults items \<Rightarrow> Inr (map Text items, [])),
      replaces_synchronously = sync\<rparr>"

definition failing_templates :: "(string, string) templates" where
  "failing_templates =
     \<lparr>renderForPromise = (\<lambda>name ctx. Inl (Thrown ''template'')),
      replaces_synchronously = True\<rparr>"

definition example_data :: "string list" where
  "example_data = [''Alice'', ''Bob'', ''Charlie'']"

text \<open>Case-insensitive substring match.\<close>

definition lower :: "char \<Rightarrow> char" where
  "lower c = (let n = of_char c :: nat in if 65 \<le> n \<and> n \<le> 90 then char_of (n + 32) else c)"

definition example_search :: "unit \<Rightarrow> string list \<Rightarrow> string \<Rightarrow> string list" where
  "example_search u D q = filter (\<lambda>s. sublist (map lower q) (map lower s)) D"

definition empty_page :: "(string, string) world" where
  "empty_page =
     \<lparr>content = [], activeElement = None, listeners = [], notifications = [],
      pending = [], trace = []\<rparr>"

definition example_env :: "string env" where
  "example_env =
     \<lparr>env_searchResultsContainer = Some [2], env_searchInput = [0],
      env_clearSearchButton = Some [1], env_data = example_data,
      env_searchFunc = example_search\<rparr>"

definition input_listener :: "string listener" where
  "input_listener =
     \<lparr>target = [0], event_name = ''input'', scheduled = Debounced 300,
      callback = InputCallback, captured = example_env\<rparr>"

definition clear_listener :: "string listener" where
  "clear_listener =
     \<lparr>target = [1], event_name = ''click'', scheduled = Immediately,
      callback = ClearCallback, captured = example_env\<rparr>"

definition loader_job :: job where
  "loader_job = \<lparr>job_container = Some [2], job_html = [Text ''loading''], job_js = []\<rparr>"

text \<open>The calls \<open>init\<close> makes to the templates on this widget.\<close>

definition setup_trace :: "string event list" where
  "setup_trace =
     [RenderCalled ''core_grades/searchwidget/loading'' EmptyContext,
      ReplaceCalled (Some [2]) [Text ''loading''] [],
      ReplaceCompleted (Some [2]) [Text ''loading''] [],
      RenderCalled ''core_grades/searchwidget/searchresults'' (Searchresults example_data),
      ReplaceCalled (Some [2]) (map Text example_data) [],
      ReplaceCompleted (Some [2]) (map Text example_data) []]"

text \<open>The pages \<open>init\<close> goes through on this widget: the one \<open>showLoader\<close> returns, when
  a replacement is done by the time \<open>replaceNodeContents\<close> returns and when it is not, the
  one \<open>renderSearchResults\<close> returns, and the one \<open>init\<close> leaves.\<close>

definition loading_page :: "bool \<Rightarrow> (string, string) world" where
  "loading_page sync =
     \<lparr>content = (if sync then widget_content [] [''d-none''] [Text ''loading'']
                 else example_body),
      activeElement = None,
      listeners = [],
      notifications = [],
      pending = (if sync then [] else [loader_job]),
      trace = take (if sync then 3 else 2) setup_trace\<rparr>"

definition rendered_page :: "(string, string) world" where
  "rendered_page =
     \<lparr>content = widget_content [] [''d-none''] (map Text example_data),
      activeElement = None,
      listeners = [],
      notifications = [],
      pending = [],
      trace = setup_trace\<rparr>"

definition widget_page :: "(string, string) world" where
  "widget_page =
     rendered_page\<lparr>activeElement := Some [0], listeners := [input_listener, clear_listener]\<rparr>"

text \<open>The widget after the user typed a query and the results were filtered.\<close>

definition typed_page :: "string \<Rightarrow> (string, string) world" where
  "typed_page query =
     widget_page
       \<lparr>content := widget_content query [] (map Text (example_search () example_data query))\<rparr>"

text \<open>Three input events within 250 ms, on the widget as \<open>init\<close> left it with no call
  scheduled.\<close>

definition example_burst :: "(nat \<times> string) list" where
  "example_burst = [(0, ''a''), (120, ''al''), (250, ''a'')]"

definition idle_timeline :: "(string, string) timeline" where
  "idle_timeline = \<lparr>timer = None, cycles = [], page = widget_page\<rparr>"

subsection \<open>The order of the placeholder and the first results\<close>



section \<open>Auxiliary facts\<close>

subsection \<open>Reading and updating along a path\<close>

lemma upd_at_Nil_list [simp]: "upd_at p f [] = []"
  by (cases p) simp_all

lemma kids_with_kids_upd: "kids (with_kids (upd_at p f) n) = upd_at p f (kids n)"
  by (cases n) simp_all

lemma with_kids_with_kids: "with_kids g (with_kids h n) = with_kids (\<lambda>ks. g (h ks)) n"
  by (cases n) simp_all

lemma upd_at_twice: "upd_at p f (upd_at p g ns) = upd_at p (\<lambda>n. f (g n)) ns"
proof (induction p arbitrary: ns)
  case Nil
  show ?case by simp
next
  case (Cons i p)
  have "(\<lambda>ks. upd_at p f (upd_at p g ks)) = upd_at p (\<lambda>n. f (g n))"
    by (rule ext) (rule Cons.IH)
  then show ?case by (simp add: with_kids_with_kids)
qed

lemma get_at_upd_at_same: "get_at p (upd_at p f ns) = map_option f (get_at p ns)"
proof (induction p arbitrary: ns)
  case Nil
  show ?case by simp
next
  case (Cons i p)
  show ?case by (simp add: kids_with_kids_upd Cons.IH)
qed

text \<open>An update that keeps the child nodes changes nothing that can be read off a node
  alone, wherever the node read lies.\<close>

lemma get_at_upd_at_observed:
  assumes keeps: "\<And>n. kids (f n) = kids n"
    and same: "\<And>n. obs (f n) = obs n"
    and local: "\<And>g n. obs (with_kids g n) = obs n"
  shows "map_option obs (get_at p (upd_at q f ns)) = map_option obs (get_at p ns)"
proof (induction p arbitrary: q ns)
  case Nil
  show ?case by simp
next
  case (Cons i p)
  show ?case
  proof (cases q)
    case Nil
    then show ?thesis by simp
  next
    case (Cons j q')
    show ?thesis
    proof (cases "i = j \<and> i < length ns")
      case False
      then show ?thesis using Cons by (auto simp: nth_list_update)
    next
      case True
      then show ?thesis
        using Cons Cons.IH [of q' "kids (ns ! i)"]
        by (simp add: keeps same local kids_with_kids_upd)
    qed
  qed
qed

text \<open>An update of a node's children is not seen at a node that does not lie inside it.\<close>

lemma get_at_upd_at_not_inside:
  assumes same: "\<And>n. obs (f n) = obs n"
    and local: "\<And>g n. obs (with_kids g n) = obs n"
    and outside: "\<not> strict_prefix q p"
  shows "map_option obs (get_at p (upd_at q f ns)) = map_option obs (get_at p ns)"
  using outside
proof (induction p arbitrary: q ns)
  case Nil
  show ?case by simp
next
  case (Cons i p)
  show ?case
  proof (cases q)
    case Nil
    then show ?thesis by simp
  next
    case q: (Cons j q')
    show ?thesis
    proof (cases "i = j \<and> i < length ns")
      case False
      then show ?thesis using q by (auto simp: nth_list_update)
    next
      case True
      have np: "\<not> strict_prefix q' p" using Cons.prems q True by simp
      show ?thesis
      proof (cases "q' = []")
        case qe: True
        then have "p = []" using np by (cases p) simp_all
        then show ?thesis using q qe True by (simp add: same)
      next
        case qn: False
        then show ?thesis
          using q True Cons.IH [OF np, of "kids (ns ! i)"]
          by (simp add: local kids_with_kids_upd)
      qed
    qed
  qed
qed

subsection \<open>What the element operations keep\<close>

lemma kids_keep [simp]:
  "kids (add_class x n) = kids n"
  "kids (remove_class x n) = kids n"
  "kids (set_control_value y n) = kids n"
  by (cases n; simp)+

lemma is_Element_keep [simp]:
  "is_Element (add_class x n) = is_Element n"
  "is_Element (remove_class x n) = is_Element n"
  "is_Element (set_control_value y n) = is_Element n"
  "is_Element (set_kids h n) = is_Element n"
  "is_Element (with_kids g n) = is_Element n"
  by (cases n; simp)+

lemma node_value_keep [simp]:
  "node_value (add_class x n) = node_value n"
  "node_value (remove_class x n) = node_value n"
  "node_value (set_kids h n) = node_value n"
  "node_value (with_kids g n) = node_value n"
  by (cases n; simp)+

lemma node_classes_keep [simp]:
  "node_classes (set_control_value y n) = node_classes n"
  "node_classes (set_kids h n) = node_classes n"
  "node_classes (with_kids g n) = node_classes n"
  by (cases n; simp)+

lemma node_value_set: "node_value (set_control_value y n) = (if is_Element n then y else [])"
  by (cases n) simp_all

lemma kids_set_kids: "is_Element n \<Longrightarrow> kids (set_kids h n) = h"
  by (cases n) simp_all

lemma set_kids_twice: "set_kids h (set_kids h n) = set_kids h n"
  by (cases n) simp_all

lemma set_control_value_twice:
  "set_control_value x (set_control_value y n) = set_control_value x n"
  by (cases n) simp_all

lemma node_classes_add: "is_Element n \<Longrightarrow> x \<in> set (node_classes (add_class x n))"
  by (cases n) simp_all

lemma case_map_option:
  "(case x of None \<Rightarrow> a | Some n \<Rightarrow> f n) = (case map_option f x of None \<Rightarrow> a | Some v \<Rightarrow> v)"
  by (cases x) simp_all

lemma is_element_upd_at:
  assumes "\<And>n. kids (f n) = kids n" and "\<And>n. is_Element (f n) = is_Element n"
  shows "is_element p (upd_at q f ns) = is_element p ns"
  unfolding is_element_def
  using get_at_upd_at_observed [of f is_Element p q ns, OF assms]
  by (simp add: case_map_option [where f = is_Element])

lemma value_after_class_change:
  "(case get_at p (upd_at q (add_class x) ns) of None \<Rightarrow> [] | Some n \<Rightarrow> node_value n) =
   (case get_at p ns of None \<Rightarrow> [] | Some n \<Rightarrow> node_value n)"
  using get_at_upd_at_observed [of "add_class x" node_value p q ns]
  by (simp add: case_map_option [where f = node_value])

lemma value_after_set:
  "(case get_at p (upd_at p (set_control_value y) ns) of None \<Rightarrow> [] | Some n \<Rightarrow> node_value n) =
   (if is_element p ns then y else [])"
  by (cases "get_at p ns") (simp_all add: get_at_upd_at_same is_element_def node_value_set)

lemma value_of_cleared [simp]:
  "value_of p (w\<lparr>content := upd_at q (add_class x) (upd_at p (set_control_value []) ns)\<rparr>) = []"
  "value_of p (w\<lparr>content := upd_at p (set_control_value []) ns\<rparr>) = []"
  by (simp_all add: value_of_def value_after_class_change value_after_set)

lemma set_value_twice: "set_value p x (set_value p y w) = set_value p x w"
  by (simp add: set_value_def upd_at_twice set_control_value_twice)

lemma value_of_set_value: "is_element p (content w) \<Longrightarrow> value_of p (set_value p x w) = x"
  by (simp add: value_of_def set_value_def value_after_set)

text \<open>The input is cleared, the button hidden and the region filled: the region holds the
  new nodes and the button has the class, unless the button lies inside the region.\<close>

lemma rendered_region:
  assumes r: "is_element r ns" and b: "is_element b ns" and out: "\<not> strict_prefix r b"
  shows "children_at r (upd_at r (set_kids h) (upd_at b (add_class x)
           (upd_at i (set_control_value y) ns))) = Some h"
    and "x \<in> set (classes_at b (upd_at r (set_kids h) (upd_at b (add_class x)
           (upd_at i (set_control_value y) ns))))"
proof -
  let ?a = "upd_at i (set_control_value y) ns"
  let ?b = "upd_at b (add_class x) ?a"
  have ra: "is_element r ?a" and ba: "is_element b ?a"
    using r b by (simp_all add: is_element_upd_at)
  have rb: "is_element r ?b" using ra by (simp add: is_element_upd_at)
  then obtain n where n: "get_at r ?b = Some n" "is_Element n"
    by (auto simp: is_element_def split: option.splits)
  show "children_at r (upd_at r (set_kids h) ?b) = Some h"
    by (simp add: children_at_def get_at_upd_at_same n kids_set_kids)
  obtain m where m: "get_at b ?a = Some m" "is_Element m"
    using ba by (auto simp: is_element_def split: option.splits)
  have "map_option node_classes (get_at b (upd_at r (set_kids h) ?b))
      = map_option node_classes (get_at b ?b)"
    by (rule get_at_upd_at_not_inside [OF _ _ out]) simp_all
  also have "\<dots> = Some (node_classes (add_class x m))"
    by (simp add: get_at_upd_at_same m)
  finally have "classes_at b (upd_at r (set_kids h) ?b) = node_classes (add_class x m)"
    by (auto simp: classes_at_def split: option.splits)
  then show "x \<in> set (classes_at b (upd_at r (set_kids h) ?b))"
    using m(2) by (simp add: node_classes_add)
qed

subsection \<open>What the rendering functions return and leave behind\<close>

lemma showLoader_outcome:
  "fst (showLoader T c w) =
     (case renderForPromise T ''core_grades/searchwidget/loading'' EmptyContext of
        Inl e \<Rightarrow> Inl e
      | Inr r \<Rightarrow> Inr ())"
  by (simp add: showLoader_def Let_def split: sum.splits prod.splits)

lemma showLoader_notifications: "notifications (snd (showLoader T c w)) = notifications w"
  by (simp add: showLoader_def replaceNodeContents_def complete_replace_def
      record_event_def Let_def split: sum.splits prod.splits option.splits)

lemma renderSearchResults_outcome:
  "fst (renderSearchResults T c D w) =
     (case renderForPromise T ''core_grades/searchwidget/searchresults'' (Searchresults D) of
        Inl e \<Rightarrow> Inl e
      | Inr r \<Rightarrow> Inr ())"
  by (simp add: renderSearchResults_def Let_def split: sum.splits prod.splits)

lemma renderSearchResults_content:
  "content (snd (renderSearchResults T c D w)) =
     (case renderForPromise T ''core_grades/searchwidget/searchresults'' (Searchresults D) of
        Inl e \<Rightarrow> content w
      | Inr r \<Rightarrow>
          (case c of
             None \<Rightarrow> content w
           | Some p \<Rightarrow> upd_at p (set_kids (fst r)) (content w)))"
  by (simp add: renderSearchResults_def replaceNodeContents_def complete_replace_def
      record_event_def Let_def split: sum.splits prod.splits option.splits)

lemma renderSearchResults_notifications:
  "notifications (snd (renderSearchResults T c D w)) = notifications w"
  by (simp add: renderSearchResults_def replaceNodeContents_def complete_replace_def
      record_event_def Let_def split: sum.splits prod.splits option.splits promise.splits)

lemma render_unsearchable_notifications:
  "notifications (snd (render_unsearchable S u w)) = notifications w"
  by (simp add: render_unsearchable_def append_innerHTML_def split: option.splits)

subsection \<open>Pending replacements being done\<close>

lemma complete_replace_keeps:
  "notifications (complete_replace j w) = notifications w"
  "pending (complete_replace j w) = pending w"
  "trace (complete_replace j w) =
     trace w @ [ReplaceCompleted (job_container j) (job_html j) (job_js j)]"
  by (simp_all add: complete_replace_def record_event_def split: option.splits)

lemma foldl_complete_replace:
  "notifications (foldl (\<lambda>w' j. complete_replace j w') w js) = notifications w"
  "pending (foldl (\<lambda>w' j. complete_replace j w') w js) = pending w"
  "trace (foldl (\<lambda>w' j. complete_replace j w') w js) =
     trace w @ map (\<lambda>j. ReplaceCompleted (job_container j) (job_html j) (job_js j)) js"
  by (induction js arbitrary: w) (simp_all add: complete_replace_keeps)

lemma settle_keeps:
  "notifications (settle w) = notifications w"
  "pending (settle w) = []"
  "trace (settle w) =
     trace w @ map (\<lambda>j. ReplaceCompleted (job_container j) (job_html j) (job_js j)) (pending w)"
  by (simp_all add: settle_def foldl_complete_replace)

lemma settle_idle: "pending w = [] \<Longrightarrow> settle w = w"
  by (simp add: settle_def)

subsection \<open>A template that fails while the widget is set up\<close>

lemma init_then_loading_fails:
  assumes "fst (render_unsearchable S u (w\<lparr>content := body\<rparr>)) = Inr ()"
    and "renderForPromise T ''core_grades/searchwidget/loading'' EmptyContext = Inl e"
  shows "fst (init_then T S D sf u body w) = Inl e"
    and "notifications (snd (init_then T S D sf u body w)) = notifications w"
proof -
  obtain w1 where r: "render_unsearchable S u (w\<lparr>content := body\<rparr>) = (Inr (), w1)"
    using assms(1) by (cases "render_unsearchable S u (w\<lparr>content := body\<rparr>)") auto
  have n1: "notifications w1 = notifications w"
    using render_unsearchable_notifications [of S u "w\<lparr>content := body\<rparr>"] r by simp
  let ?c = "querySelector (content w1) (regions_searchResults S)"
  obtain w2 where l: "showLoader T ?c w1 = (Inl e, w2)"
    using showLoader_outcome [of T ?c w1] assms(2)
    by (cases "showLoader T ?c w1") auto
  have n2: "notifications w2 = notifications w1"
    using showLoader_notifications [of T ?c w1] l by simp
  show "fst (init_then T S D sf u body w) = Inl e"
    by (simp add: init_then_def r l resumed_def Let_def)
  show "notifications (snd (init_then T S D sf u body w)) = notifications w"
    by (simp add: init_then_def r l resumed_def Let_def n1 n2 settle_keeps)
qed

lemma init_then_results_fail:
  assumes "fst (render_unsearchable S u (w\<lparr>content := body\<rparr>)) = Inr ()"
    and "renderForPromise T ''core_grades/searchwidget/loading'' EmptyContext = Inr r"
    and "renderForPromise T ''core_grades/searchwidget/searchresults'' (Searchresults D) = Inl e"
  shows "fst (init_then T S D sf u body w) = Inl e"
    and "notifications (snd (init_then T S D sf u body w)) = notifications w"
proof -
  obtain w1 where r: "render_unsearchable S u (w\<lparr>content := body\<rparr>) = (Inr (), w1)"
    using assms(1) by (cases "render_unsearchable S u (w\<lparr>content := body\<rparr>)") auto
  have n1: "notifications w1 = notifications w"
    using render_unsearchable_notifications [of S u "w\<lparr>content := body\<rparr>"] r by simp
  let ?c = "querySelector (content w1) (regions_searchResults S)"
  obtain w2 where l: "showLoader T ?c w1 = (Inr (), w2)"
    using showLoader_outcome [of T ?c w1] assms(2)
    by (cases "showLoader T ?c w1") auto
  have n2: "notifications w2 = notifications w1"
    using showLoader_notifications [of T ?c w1] l by simp
  obtain w3 where s: "renderSearchResults T ?c D (settle w2) = (Inl e, w3)"
    using renderSearchResults_outcome [of T ?c D "settle w2"] assms(3)
    by (cases "renderSearchResults T ?c D (settle w2)") auto
  have n3: "notifications w3 = notifications w2"
    using renderSearchResults_notifications [of T ?c D "settle w2"] s
    by (simp add: settle_keeps)
  show "fst (init_then T S D sf u body w) = Inl e"
    by (simp add: init_then_def r l s resumed_def Let_def)
  show "notifications (snd (init_then T S D sf u body w)) = notifications w"
    by (simp add: init_then_def r l s resumed_def Let_def n1 n2 n3 settle_keeps)
qed

lemma init_notifies:
  assumes "fst (init_then T S D sf u body w) = Inl e"
    and "notifications (snd (init_then T S D sf u body w)) = notifications w"
  shows "notifications (snd (init T S (Fulfilled body) D sf u w)) = notifications w @ [e]"
  using assms by (cases "init_then T S D sf u body w")
    (auto simp: init_def Notification_exception_def)

subsection \<open>The calls to the templates while the widget is set up\<close>








subsection \<open>The two callbacks on an empty query\<close>

lemma clear_callback_unfold:
  "clear_callback T E w =
     (case env_clearSearchButton E of
        None \<Rightarrow> (Inl TypeError,
          focus_element (env_searchInput E)
            (set_value (env_searchInput E) [] (record_event StopPropagation w)))
      | Some b \<Rightarrow>
          renderSearchResults T (env_searchResultsContainer E) (env_data E)
            (classList_add b ''d-none''
              (focus_element (env_searchInput E)
                (set_value (env_searchInput E) [] (record_event StopPropagation w)))))"
  by (simp add: clear_callback_def Let_def debounceCallee_def classList_add_def
      focus_element_def set_value_def record_event_def split: option.splits)

lemma input_callback_empty_unfold:
  "input_callback T E (set_value (env_searchInput E) [] w) =
     (case env_clearSearchButton E of
        None \<Rightarrow> (Inl TypeError, set_value (env_searchInput E) [] w)
      | Some b \<Rightarrow>
          renderSearchResults T (env_searchResultsContainer E) (env_data E)
            (classList_add b ''d-none'' (set_value (env_searchInput E) [] w)))"
  by (simp add: input_callback_def Let_def debounceCallee_def classList_add_def
      set_value_def split: option.splits)

subsection \<open>A burst of input events\<close>

lemma burst_postpones:
  assumes l: "scheduled l = Debounced wait"
    and idle: "timer st = None"
  shows "(\<forall>ev \<in> set evs. t0 \<le> fst ev \<and> fst ev < t0 + wait) \<Longrightarrow>
    foldl (input_event T l) st evs =
      (if evs = [] then st
       else st\<lparr>timer := Some (fst (last evs) + wait),
               page := set_value (target l) (snd (last evs)) (page st)\<rparr>)"
proof (induction evs rule: rev_induct)
  case Nil
  show ?case by simp
next
  case (snoc ev evs)
  then have w: "\<forall>ev \<in> set evs. t0 \<le> fst ev \<and> fst ev < t0 + wait"
    and e: "t0 \<le> fst ev" "fst ev < t0 + wait" by simp_all
  show ?case
  proof (cases "evs = []")
    case True
    then show ?thesis
      by (simp add: input_event_def advance_to_def dispatch_def l idle Let_def)
  next
    case False
    then have "t0 \<le> fst (last evs)" using w by simp
    then have "\<not> fst (last evs) + wait \<le> fst ev" using e by simp
    then show ?thesis
      using False snoc.IH [OF w]
      by (simp add: input_event_def advance_to_def dispatch_def l Let_def set_value_twice)
  qed
qed

lemma registered_input_listener:
  assumes "l \<in> set (listeners (snd (registerListenerEvents S D sf w0)))"
    and "listeners w0 = []" and "event_name l = ''input''"
  shows "scheduled l = Debounced 300 \<and> callback l = InputCallback \<and>
         target l = env_searchInput (captured l)"
  using assms
  by (auto simp: registerListenerEvents_def addEventListener_def focus_element_def Let_def
      split: option.splits)

lemma sorted_window:
  assumes "sorted (map fst evs)" and "ev \<in> set evs"
  shows "fst (hd evs) \<le> fst ev \<and> fst ev \<le> fst (last evs)"
  using assms
proof (induction evs)
  case Nil
  then show ?case by simp
next
  case (Cons a evs)
  then show ?case by (cases "evs = []") auto
qed

subsection \<open>The concrete widget\<close>

lemma example_search_a:
  "example_search () [''Alice'', ''Bob'', ''Charlie''] ''a'' = [''Alice'', ''Charlie'']"
  by code_simp

lemma example_queries:
  "querySelector example_body (regions_unsearchableContent example_selectors) = None"
  "querySelector example_body (regions_searchResults example_selectors) = Some [2]"
  by (simp_all add: querySelector_def example_body_def widget_content_def
      example_selectors_def attr_selector_def)

lemma text_results_queries:
  "querySelector (widget_content q c (map Text D)) (regions_searchResults example_selectors)
     = Some [2]"
  "querySelector (widget_content q c (map Text D)) (actions_search example_selectors)
     = Some [0]"
  "querySelector (widget_content q c (map Text D)) (actions_clearSearch example_selectors)
     = Some [1]"
  by (simp_all add: querySelector_def widget_content_def example_selectors_def
      attr_selector_def)

lemma widget_content_parts:
  "is_element [0] (widget_content q c r)"
  "is_element [Suc 0] (widget_content q c r)"
  "is_element [2] (widget_content q c r)"
  "children_at [2] (widget_content q c r) = Some r"
  "classes_at [Suc 0] (widget_content q c r) = c"
  "get_at [0] (widget_content q c r) = Some (Element [(''data-action'', ''search'')] [] q [])"
  by (simp_all add: widget_content_def is_element_def children_at_def classes_at_def)

lemma widget_content_updates:
  "upd_at [0] (set_control_value x) (widget_content q c r) = widget_content x c r"
  "upd_at [Suc 0] (add_class y) (widget_content q c r) =
     widget_content q (if y \<in> set c then c else c @ [y]) r"
  "upd_at [Suc 0] (remove_class y) (widget_content q c r) = widget_content q (removeAll y c) r"
  "upd_at [2] (set_kids h) (widget_content q c r) = widget_content q c h"
  by (simp_all add: widget_content_def)

lemma example_showLoader:
  "showLoader (example_templates sync) (Some [2]) (empty_page\<lparr>content := example_body\<rparr>) =
     (Inr (), loading_page sync)"
  by (simp add: showLoader_def example_templates_def replaceNodeContents_def
      complete_replace_def record_event_def empty_page_def example_body_def
      widget_content_updates loader_job_def loading_page_def setup_trace_def Let_def
      del: upd_at.simps)

lemma example_settle_loading: "settle (loading_page sync) = loading_page True"
  by (simp add: settle_def loading_page_def complete_replace_def record_event_def
      loader_job_def example_body_def widget_content_updates setup_trace_def
      del: upd_at.simps)

lemma example_renderSearchResults:
  "renderSearchResults (example_templates sync) (Some [2]) example_data (loading_page True) =
     (Inr (), rendered_page)"
  by (simp add: renderSearchResults_def example_templates_def replaceNodeContents_def
      complete_replace_def record_event_def widget_content_updates
      setup_trace_def loading_page_def rendered_page_def Let_def
      del: upd_at.simps)

lemma example_settle_rendered: "settle rendered_page = rendered_page"
  by (simp add: settle_idle rendered_page_def)

lemma example_registerListenerEvents:
  "registerListenerEvents example_selectors example_data example_search rendered_page =
     (Inr (), widget_page)"
  by (simp add: registerListenerEvents_def text_results_queries focus_element_def
      addEventListener_def widget_page_def rendered_page_def input_listener_def
      clear_listener_def example_env_def Let_def)

lemma example_init:
  assumes "u = None \<or> u = Some []"
  shows "init (example_templates sync) example_selectors (Fulfilled example_body) example_data
     example_search u empty_page = (Inr (), widget_page)"
proof -
  have u: "render_unsearchable example_selectors u (empty_page\<lparr>content := example_body\<rparr>)
      = (Inr (), empty_page\<lparr>content := example_body\<rparr>)"
    using assms by (auto simp: render_unsearchable_def)
  have "init_then (example_templates sync) example_selectors example_data example_search u
      example_body empty_page = (Inr (), widget_page)"
    unfolding init_then_def u
    by (simp add: example_queries example_showLoader example_settle_loading
        example_renderSearchResults example_settle_rendered example_registerListenerEvents
        resumed_def Let_def del: upd_at.simps)
  then show ?thesis by (simp add: init_def)
qed

lemma example_input_callback:
  "content (snd (input_callback (example_templates True) example_env
      (set_value [0] ''a'' widget_page))) =
   widget_content ''a'' [] [Text ''Alice'', Text ''Charlie'']"
  by (simp add: input_callback_def example_env_def set_value_def value_of_def
      widget_page_def rendered_page_def widget_content_updates widget_content_parts
      classList_remove_def classList_add_def debounceCallee_def example_search_a
      example_data_def renderSearchResults_content example_templates_def Let_def
      del: upd_at.simps get_at.simps)

section \<open>Properties\<close>

text \<open>
  C1. For every data set \<open>D\<close> and query \<open>q\<close>: when \<open>q\<close> has length zero the filtering
  step returns \<open>D\<close> itself, in its order (also when \<open>D\<close> is empty); when \<open>q\<close> is not
  empty it returns exactly what the caller's search function returns for \<open>(D, q)\<close>.
\<close>

theorem debounceCallee_policy:
  "(length q = 0 \<longrightarrow> debounceCallee q D searchFunction = D) \<and>
   (length q > 0 \<longrightarrow> debounceCallee q D searchFunction = searchFunction D q)"
  by (simp add: debounceCallee_def)

text \<open>The empty query and the query \<open>a\<close> on Alice, Bob and Charlie.\<close>

theorem debounceCallee_policy_witness:
  "length ''a'' > 0 \<and> length ([] :: string) = 0 \<and>
   debounceCallee [] [''Alice'', ''Bob'', ''Charlie''] (example_search ())
     = [''Alice'', ''Bob'', ''Charlie''] \<and>
   debounceCallee ''a'' [''Alice'', ''Bob'', ''Charlie''] (example_search ())
     = [''Alice'', ''Charlie'']"
  using debounceCallee_policy [of "[]" "[''Alice'', ''Bob'', ''Charlie'']" "example_search ()"]
    debounceCallee_policy [of "''a''" "[''Alice'', ''Bob'', ''Charlie'']" "example_search ()"]
  by (simp add: example_search_a)

text \<open>
  C2. For every rejection reason \<open>e\<close>: when the body promise handed to \<open>init\<close> rejects
  with \<open>e\<close>, \<open>Notification.exception\<close> receives \<open>e\<close> and nothing else happens: the
  container's contents, the focus, the listeners, the pending replacements and the calls
  to the templates are what they were.
\<close>

theorem init_rejected_body:
  "init T S (Rejected e) D searchFunction u w =
     (Inr (), w\<lparr>notifications := notifications w @ [e]\<rparr>)"
  by (simp add: init_def Notification_exception_def)

text \<open>The body promise rejects with a network error.\<close>

theorem init_rejected_body_witness:
  "init (example_templates True) example_selectors (Rejected (Thrown ''network''))
     example_data example_search None empty_page =
     (Inr (), empty_page\<lparr>notifications := [Thrown ''network'']\<rparr>)"
  using init_rejected_body [of "example_templates True" example_selectors "Thrown ''network''"
      example_data example_search None empty_page]
  by (simp add: empty_page_def)



text \<open>
  C4. For every container without a search input, \<open>registerListenerEvents\<close> returns
  normally and leaves the page as it was: no change to the container, no focus, no
  listener.
\<close>

theorem registerListenerEvents_no_input:
  "querySelector (content w) (actions_search S) = None \<Longrightarrow>
   registerListenerEvents S D searchFunction w = (Inr (), w)"
  by (simp add: registerListenerEvents_def)

text \<open>The widget is closed and its content is empty.\<close>

theorem registerListenerEvents_no_input_witness:
  "querySelector (content empty_page) (actions_search example_selectors) = None \<and>
   registerListenerEvents example_selectors example_data example_search empty_page
     = (Inr (), empty_page)"
proof -
  have h: "querySelector (content empty_page) (actions_search example_selectors) = None"
    by (simp add: empty_page_def querySelector_def)
  show ?thesis using h registerListenerEvents_no_input [OF h] by simp
qed

text \<open>
  C5. For every data set and every state of the widget, the click on the clear button
  has the outcome and leaves the container's contents that the input callback has and
  leaves when the input holds the empty string. When the button and the results region
  are in the container, the button not inside the region, and the results template
  renders, both end with the rendering of the whole data set in the region and the class
  \<open>d-none\<close> on the button.
\<close>

theorem clear_click_is_empty_input:
  "fst (clear_callback T E w) = fst (input_callback T E (set_value (env_searchInput E) [] w)) \<and>
   content (snd (clear_callback T E w)) =
     content (snd (input_callback T E (set_value (env_searchInput E) [] w))) \<and>
   (env_clearSearchButton E = Some b \<and> env_searchResultsContainer E = Some r \<and>
    renderForPromise T ''core_grades/searchwidget/searchresults'' (Searchresults (env_data E))
      = Inr (h, js) \<and>
    is_element r (content w) \<and> is_element b (content w) \<and> \<not> strict_prefix r b \<longrightarrow>
      fst (clear_callback T E w) = Inr () \<and>
      children_at r (content (snd (clear_callback T E w))) = Some h \<and>
      ''d-none'' \<in> set (classes_at b (content (snd (clear_callback T E w)))))"
proof (intro conjI impI)
  show "fst (clear_callback T E w) = fst (input_callback T E (set_value (env_searchInput E) [] w))"
    unfolding clear_callback_unfold input_callback_empty_unfold
    by (simp add: renderSearchResults_outcome split: option.splits)
  show "content (snd (clear_callback T E w)) =
     content (snd (input_callback T E (set_value (env_searchInput E) [] w)))"
    unfolding clear_callback_unfold input_callback_empty_unfold
    by (simp add: renderSearchResults_content classList_add_def focus_element_def
        set_value_def record_event_def split: option.splits sum.splits)
next
  assume a: "env_clearSearchButton E = Some b \<and> env_searchResultsContainer E = Some r \<and>
    renderForPromise T ''core_grades/searchwidget/searchresults'' (Searchresults (env_data E))
      = Inr (h, js) \<and>
    is_element r (content w) \<and> is_element b (content w) \<and> \<not> strict_prefix r b"
  then have c: "content (snd (clear_callback T E w)) =
      upd_at r (set_kids h) (upd_at b (add_class ''d-none'')
        (upd_at (env_searchInput E) (set_control_value []) (content w)))"
    by (simp add: clear_callback_unfold renderSearchResults_content
        classList_add_def focus_element_def set_value_def record_event_def)
  show "fst (clear_callback T E w) = Inr ()"
    using a by (simp add: clear_callback_unfold renderSearchResults_outcome)
  show "children_at r (content (snd (clear_callback T E w))) = Some h"
    unfolding c using a by (simp add: rendered_region(1))
  show "''d-none'' \<in> set (classes_at b (content (snd (clear_callback T E w))))"
    unfolding c using a by (simp add: rendered_region(2))
qed

text \<open>The clear button is clicked after the user typed \<open>a\<close>.\<close>

theorem clear_click_is_empty_input_witness:
  "env_clearSearchButton example_env = Some [1] \<and>
   env_searchResultsContainer example_env = Some [2] \<and>
   renderForPromise (example_templates True) ''core_grades/searchwidget/searchresults''
     (Searchresults (env_data example_env)) = Inr (map Text example_data, []) \<and>
   is_element [2] (content (typed_page ''a'')) \<and>
   is_element [1] (content (typed_page ''a'')) \<and>
   \<not> strict_prefix [2 :: nat] [1] \<and>
   fst (clear_callback (example_templates True) example_env (typed_page ''a'')) = Inr () \<and>
   children_at [2] (content (snd (clear_callback (example_templates True) example_env
     (typed_page ''a'')))) = Some (map Text example_data) \<and>
   ''d-none'' \<in> set (classes_at [1] (content (snd (clear_callback (example_templates True)
     example_env (typed_page ''a'')))))"
proof -
  have h: "env_clearSearchButton example_env = Some [1] \<and>
    env_searchResultsContainer example_env = Some [2] \<and>
    renderForPromise (example_templates True) ''core_grades/searchwidget/searchresults''
      (Searchresults (env_data example_env)) = Inr (map Text example_data, []) \<and>
    is_element [2] (content (typed_page ''a'')) \<and>
    is_element [1] (content (typed_page ''a'')) \<and>
    \<not> strict_prefix [2 :: nat] [1]"
    by (simp add: example_env_def example_templates_def typed_page_def widget_content_parts)
  have c: "fst (clear_callback (example_templates True) example_env (typed_page ''a'')) = Inr () \<and>
    children_at [2] (content (snd (clear_callback (example_templates True) example_env
      (typed_page ''a'')))) = Some (map Text example_data) \<and>
    ''d-none'' \<in> set (classes_at [1] (content (snd (clear_callback (example_templates True)
      example_env (typed_page ''a'')))))"
    by (rule clear_click_is_empty_input [THEN conjunct2, THEN conjunct2, rule_format, OF h])
  show ?thesis using h c by blast
qed

text \<open>
  C6. For every \<open>N \<ge> 1\<close>: when \<open>N\<close> input events reach the listener that
  \<open>registerListenerEvents\<close> added within a window shorter than 300 ms, starting with no
  call scheduled, and 300 ms then pass without an event, exactly one filter-and-render
  cycle is executed. It reads the value the last event left in the input; no cycle is
  started for the earlier events.
\<close>

theorem debounced_input_coalesces:
  assumes reg: "l \<in> set (listeners (snd (registerListenerEvents S D sf w0)))"
      "listeners w0 = []" "event_name l = ''input''"
    and evs: "evs \<noteq> []" "sorted (map fst evs)" "fst (last evs) < fst (hd evs) + 300"
    and st: "timer st = None" "cycles st = []" "is_element (target l) (content (page st))"
    and quiet: "fst (last evs) + 300 \<le> t_end"
  shows "cycles (input_events T l evs t_end st) = [snd (last evs)] \<and>
         timer (input_events T l evs t_end st) = None \<and>
         page (input_events T l evs t_end st) =
           snd (input_callback T (captured l)
                  (set_value (target l) (snd (last evs)) (page st)))"
proof -
  have l: "scheduled l = Debounced 300" "callback l = InputCallback"
      "target l = env_searchInput (captured l)"
    using registered_input_listener [OF reg] by simp_all
  have "\<forall>ev \<in> set evs. fst (hd evs) \<le> fst ev \<and> fst ev < fst (hd evs) + 300"
    using sorted_window [OF evs(2)] evs(3) by fastforce
  then have run: "foldl (input_event T l) st evs =
      st\<lparr>timer := Some (fst (last evs) + 300),
         page := set_value (target l) (snd (last evs)) (page st)\<rparr>"
    using burst_postpones [OF l(1) st(1), of evs "fst (hd evs)" T] evs(1) by simp
  have v: "value_of (target l) (set_value (target l) (snd (last evs)) (page st)) = snd (last evs)"
    by (rule value_of_set_value [OF st(3)])
  show ?thesis
    using quiet v
    by (simp add: input_events_def run advance_to_def fire_def run_callback_def l st(2))
qed

text \<open>Three input events within 250 ms leave \<open>a\<close> in the input; at 550 ms one cycle has
  run and the region shows Alice and Charlie.\<close>

theorem debounced_input_coalesces_witness:
  "input_listener \<in> set (listeners (snd (registerListenerEvents example_selectors example_data
      example_search rendered_page))) \<and>
   listeners rendered_page = [] \<and>
   event_name input_listener = ''input'' \<and>
   example_burst \<noteq> [] \<and>
   sorted (map fst example_burst) \<and>
   fst (last example_burst) < fst (hd example_burst) + 300 \<and>
   timer idle_timeline = None \<and>
   cycles idle_timeline = [] \<and>
   is_element (target input_listener) (content (page idle_timeline)) \<and>
   fst (last example_burst) + 300 \<le> 550 \<and>
   cycles (input_events (example_templates True) input_listener example_burst 550 idle_timeline)
     = [''a''] \<and>
   timer (input_events (example_templates True) input_listener example_burst 550 idle_timeline)
     = None \<and>
   content (page (input_events (example_templates True) input_listener example_burst 550
     idle_timeline)) = widget_content ''a'' [] [Text ''Alice'', Text ''Charlie'']"
proof -
  have h1: "input_listener \<in> set (listeners (snd (registerListenerEvents example_selectors
      example_data example_search rendered_page)))"
    by (simp add: example_registerListenerEvents widget_page_def)
  have h2: "listeners rendered_page = []"
    by (simp add: rendered_page_def)
  have h3: "event_name input_listener = ''input''"
    by (simp add: input_listener_def)
  have h4: "example_burst \<noteq> []" and h5: "sorted (map fst example_burst)"
    and h6: "fst (last example_burst) < fst (hd example_burst) + 300"
    and h10: "fst (last example_burst) + 300 \<le> 550"
    by (simp_all add: example_burst_def)
  have h7: "timer idle_timeline = None" and h8: "cycles idle_timeline = []"
    by (simp_all add: idle_timeline_def)
  have h9: "is_element (target input_listener) (content (page idle_timeline))"
    by (simp add: input_listener_def idle_timeline_def widget_page_def rendered_page_def
        widget_content_parts)
  have c: "cycles (input_events (example_templates True) input_listener example_burst 550
        idle_timeline) = [snd (last example_burst)] \<and>
      timer (input_events (example_templates True) input_listener example_burst 550
        idle_timeline) = None \<and>
      page (input_events (example_templates True) input_listener example_burst 550
        idle_timeline) =
        snd (input_callback (example_templates True) (captured input_listener)
          (set_value (target input_listener) (snd (last example_burst)) (page idle_timeline)))"
    by (rule debounced_input_coalesces [OF h1 h2 h3 h4 h5 h6 h7 h8 h9 h10])
  have l: "snd (last example_burst) = ''a''" by (simp add: example_burst_def)
  have p: "content (page (input_events (example_templates True) input_listener example_burst 550
      idle_timeline)) = widget_content ''a'' [] [Text ''Alice'', Text ''Charlie'']"
    using c example_input_callback
    by (simp add: l input_listener_def idle_timeline_def)
  show ?thesis using h1 h2 h3 h4 h5 h6 h7 h8 h9 h10 c l p by simp
qed

text \<open>
  C7. A template that fails to render rejects the promise of \<open>showLoader\<close>, respectively
  of \<open>renderSearchResults\<close>, with the renderer's reason: the failure is not caught there.
  Inside \<open>init\<close> the same failure is caught by the chain's \<open>catch\<close>:
  \<open>Notification.exception\<close> receives the reason and the promise of \<open>init\<close> is fulfilled.
\<close>

theorem template_failure_routing:
  "(renderForPromise T ''core_grades/searchwidget/loading'' EmptyContext = Inl e \<longrightarrow>
      fst (showLoader T c w) = Inl e) \<and>
   (renderForPromise T ''core_grades/searchwidget/searchresults'' (Searchresults D) = Inl e \<longrightarrow>
      fst (renderSearchResults T c D w) = Inl e) \<and>
   (fst (render_unsearchable S u (w\<lparr>content := body\<rparr>)) = Inr () \<and>
    (renderForPromise T ''core_grades/searchwidget/loading'' EmptyContext = Inl e \<or>
     (\<exists>r. renderForPromise T ''core_grades/searchwidget/loading'' EmptyContext = Inr r) \<and>
     renderForPromise T ''core_grades/searchwidget/searchresults'' (Searchresults D) = Inl e) \<longrightarrow>
      fst (init T S (Fulfilled body) D sf u w) = Inr () \<and>
      notifications (snd (init T S (Fulfilled body) D sf u w)) = notifications w @ [e])"
proof (intro conjI impI)
  assume "renderForPromise T ''core_grades/searchwidget/loading'' EmptyContext = Inl e"
  then show "fst (showLoader T c w) = Inl e" by (simp add: showLoader_outcome)
next
  assume "renderForPromise T ''core_grades/searchwidget/searchresults'' (Searchresults D) = Inl e"
  then show "fst (renderSearchResults T c D w) = Inl e" by (simp add: renderSearchResults_outcome)
next
  show "fst (init T S (Fulfilled body) D sf u w) = Inr ()" by (simp add: init_def)
next
  assume a: "fst (render_unsearchable S u (w\<lparr>content := body\<rparr>)) = Inr () \<and>
    (renderForPromise T ''core_grades/searchwidget/loading'' EmptyContext = Inl e \<or>
     (\<exists>r. renderForPromise T ''core_grades/searchwidget/loading'' EmptyContext = Inr r) \<and>
     renderForPromise T ''core_grades/searchwidget/searchresults'' (Searchresults D) = Inl e)"
  then have u: "fst (render_unsearchable S u (w\<lparr>content := body\<rparr>)) = Inr ()" by simp
  from a consider
      (loading) "renderForPromise T ''core_grades/searchwidget/loading'' EmptyContext = Inl e"
    | (results) r where "renderForPromise T ''core_grades/searchwidget/loading'' EmptyContext = Inr r"
        "renderForPromise T ''core_grades/searchwidget/searchresults'' (Searchresults D) = Inl e"
    by blast
  then show "notifications (snd (init T S (Fulfilled body) D sf u w)) = notifications w @ [e]"
  proof cases
    case loading
    show ?thesis
      by (rule init_notifies [OF init_then_loading_fails [OF u loading]])
  next
    case results
    show ?thesis
      by (rule init_notifies [OF init_then_results_fail [OF u results]])
  qed
qed

text \<open>Templates that always fail, on the concrete widget.\<close>

theorem template_failure_routing_witness:
  "renderForPromise failing_templates ''core_grades/searchwidget/loading'' EmptyContext
     = Inl (Thrown ''template'') \<and>
   fst (showLoader failing_templates None empty_page) = Inl (Thrown ''template'') \<and>
   renderForPromise failing_templates ''core_grades/searchwidget/searchresults''
     (Searchresults example_data) = Inl (Thrown ''template'') \<and>
   fst (renderSearchResults failing_templates None example_data empty_page)
     = Inl (Thrown ''template'') \<and>
   fst (render_unsearchable example_selectors None (empty_page\<lparr>content := example_body\<rparr>))
     = Inr () \<and>
   notifications (snd (init failing_templates example_selectors (Fulfilled example_body)
     example_data example_search None empty_page)) = [Thrown ''template'']"
  using template_failure_routing [where T = failing_templates and e = "Thrown ''template''"
      and c = None and w = empty_page and D = example_data and S = example_selectors
      and u = None and body = example_body and sf = example_search]
  by (simp add: failing_templates_def render_unsearchable_def empty_page_def)

text \<open>
  As stated for the caller of \<open>init\<close>, C7 fails: the loading template fails, and the
  promise of \<open>init\<close> is fulfilled, not rejected; the reason went to
  \<open>Notification.exception\<close>.
\<close>

theorem init_template_failure_counterexample:
  "renderForPromise failing_templates ''core_grades/searchwidget/loading'' EmptyContext
     = Inl (Thrown ''template'') \<and>
   init failing_templates example_selectors (Fulfilled example_body) example_data
     example_search None empty_page
     = (Inr (), empty_page\<lparr>content := example_body,
          notifications := [Thrown ''template''],
          trace := [RenderCalled ''core_grades/searchwidget/loading'' EmptyContext]\<rparr>)"
  by (simp add: init_def init_then_def render_unsearchable_def showLoader_def resumed_def
      settle_def failing_templates_def empty_page_def record_event_def
      Notification_exception_def Let_def)

text \<open>
  C8. \<open>renderSearchResults\<close> is idempotent: called twice in sequence with the same
  container and data, it leaves the container's contents as one call does, with the same
  outcome.
\<close>

theorem renderSearchResults_idempotent:
  "content (snd (renderSearchResults T c D (snd (renderSearchResults T c D w)))) =
     content (snd (renderSearchResults T c D w)) \<and>
   fst (renderSearchResults T c D (snd (renderSearchResults T c D w))) =
     fst (renderSearchResults T c D w)"
  by (simp add: renderSearchResults_content renderSearchResults_outcome upd_at_twice
      set_kids_twice split: sum.splits option.splits)




text \<open>
  C10. When \<open>init\<close> is called with unsearchable content that is neither \<open>null\<close> nor the
  empty string and the resolved body has no unsearchable-content region, the setup stops
  after the body was injected: \<open>Notification.exception\<close> receives the \<open>TypeError\<close>, no
  template is rendered and no listener is added.
\<close>

theorem init_unsearchable_region_missing:
  "u \<noteq> [] \<Longrightarrow> querySelector body (regions_unsearchableContent S) = None \<Longrightarrow>
   init T S (Fulfilled body) D searchFunction (Some u) w =
     (Inr (), w\<lparr>content := body, notifications := notifications w @ [TypeError]\<rparr>)"
  by (simp add: init_def init_then_def render_unsearchable_def Notification_exception_def)

text \<open>A note for the unsearchable region, and a body without that region.\<close>

theorem init_unsearchable_region_missing_witness:
  "[Text ''note''] \<noteq> [] \<and>
   querySelector example_body (regions_unsearchableContent example_selectors) = None \<and>
   init (example_templates True) example_selectors (Fulfilled example_body) example_data
     example_search (Some [Text ''note'']) empty_page =
     (Inr (), empty_page\<lparr>content := example_body, notifications := [TypeError]\<rparr>)"
proof -
  have h1: "[Text ''note''] \<noteq> []" by simp
  have h2: "querySelector example_body (regions_unsearchableContent example_selectors) = None"
    by (rule example_queries)
  show ?thesis
    using h1 h2
      init_unsearchable_region_missing [OF h1 h2, of "example_templates True" example_data
        example_search empty_page]
    by (simp add: empty_page_def)
qed

text \<open>
  As stated for every content that is not \<open>null\<close>, C10 fails for the empty string: the
  body has no unsearchable-content region, and the setup runs to its end. Nothing is
  notified, the results are rendered and both listeners are added.
\<close>

theorem init_empty_unsearchable_counterexample:
  "querySelector example_body (regions_unsearchableContent example_selectors) = None \<and>
   init (example_templates True) example_selectors (Fulfilled example_body) example_data
     example_search (Some []) empty_page = (Inr (), widget_page) \<and>
   notifications widget_page = [] \<and>
   listeners widget_page = [input_listener, clear_listener] \<and>
   children_at [2] (content widget_page) = Some (map Text example_data) \<and>
   trace widget_page = setup_trace"
  by (simp add: example_init example_queries widget_page_def rendered_page_def
      widget_content_parts)

end
